theory Spec2Isabelle
  imports Complex_Main
begin

section \<open>Data model\<close>

text \<open>
  One row of the \<open>projects\<close> table of \<open>create_database.py\<close>, which is also the
  dictionary that \<open>generate_realistic_project\<close> returns. Every column is
  \<open>NOT NULL\<close>. SQL column names are case-insensitive, so they are written in lower case
  here. \<open>REAL\<close> columns are exact rationals, \<open>INTEGER\<close> columns are integers, \<open>TEXT\<close>
  columns are strings, and a \<open>DATE\<close> is the proleptic Gregorian ordinal of the day
  (what \<open>julianday\<close> and \<open>datetime\<close> differences count).
\<close>

record project =
  project_id :: int
  department :: string
  project_name :: string
  manager :: string
  start_date :: int
  end_date :: int
  planned_cost :: rat
  actual_cost :: rat
  planned_completion :: int
  actual_completion :: int
  status :: string
  tasks_total :: int
  tasks_completed :: int
  planned_hours :: int
  actual_hours :: int

section \<open>The \<open>kpi_metrics\<close> view (\<open>create_database.py\<close>)\<close>

text \<open>
  SQLite arithmetic: a division by zero is \<open>NULL\<close> (here \<open>None\<close>), \<open>/\<close> on two
  integers truncates towards zero, and \<open>NULL\<close> propagates through the operators.
  \<open>ROUND(x, n)\<close> rounds to \<open>n\<close> decimals, halves away from zero.
\<close>

definition sql_div :: "rat \<Rightarrow> rat \<Rightarrow> rat option" where
  "sql_div a b = (if b = 0 then None else Some (a / b))"

definition sql_int_div :: "int \<Rightarrow> int \<Rightarrow> int option" where
  "sql_int_div a b = (if b = 0 then None else Some (sgn a * sgn b * (\<bar>a\<bar> div \<bar>b\<bar>)))"

definition sql_round :: "rat \<Rightarrow> nat \<Rightarrow> rat" where
  "sql_round x n = sgn x * of_int \<lfloor>\<bar>x\<bar> * 10 ^ n + 1 / 2\<rfloor> / 10 ^ n"

text \<open>The expression \<open>(Actual_Cost - Planned_Cost) / Planned_Cost * 100\<close> of the view.\<close>

definition sql_cost_pct :: "project \<Rightarrow> rat option" where
  "sql_cost_pct p =
     map_option (\<lambda>q. q * 100) (sql_div (actual_cost p - planned_cost p) (planned_cost p))"

text \<open>The derived columns of the view; the other columns are those of the row itself.\<close>

record kpi_row =
  Cost_Variance :: rat
  Cost_Variance_Pct :: "rat option"
  Duration_Days :: int
  Completion_Variance :: int
  Task_Completion_Pct :: "rat option"
  Hours_Variance :: int
  Hours_Variance_Pct :: "rat option"
  Delivery_Status :: string
  Budget_Status :: string

definition kpi_metrics :: "project \<Rightarrow> kpi_row" where
  "kpi_metrics p =
     \<lparr> Cost_Variance = actual_cost p - planned_cost p,
       Cost_Variance_Pct = map_option (\<lambda>x. sql_round x 2) (sql_cost_pct p),
       Duration_Days = end_date p - start_date p,
       Completion_Variance = actual_completion p - planned_completion p,
       Task_Completion_Pct =
         map_option (\<lambda>x. sql_round x 2)
           (sql_div (of_int (tasks_completed p) * 100) (of_int (tasks_total p))),
       Hours_Variance = actual_hours p - planned_hours p,
       Hours_Variance_Pct =
         map_option (\<lambda>q. sql_round (of_int (q * 100)) 2)
           (sql_int_div (actual_hours p - planned_hours p) (planned_hours p)),
       Delivery_Status =
         (if status p = ''Completed'' \<and> actual_completion p = 100 then ''On-Time''
          else if status p = ''Delayed'' then ''Delayed''
          else ''In-Progress''),
       Budget_Status =
         (if (case sql_cost_pct p of None \<Rightarrow> False | Some x \<Rightarrow> \<bar>x\<bar> \<le> 10) then ''Within Budget''
          else if actual_cost p > planned_cost p then ''Over Budget''
          else ''Under Budget'') \<rparr>"

text \<open>A row to build examples from: the fields an example is about are updated.\<close>

definition sample_project :: project where
  "sample_project =
     \<lparr> project_id = 1001, department = ''Marketing'', project_name = ''Website Redesign'',
       manager = ''John Smith'', start_date = 739068, end_date = 739098,
       planned_cost = 1000, actual_cost = 1100,
       planned_completion = 100, actual_completion = 100, status = ''Completed'',
       tasks_total = 40, tasks_completed = 40, planned_hours = 400, actual_hours = 500 \<rparr>"

section \<open>The transform step (\<open>etl_pipeline.py\<close>)\<close>

text \<open>
  A pandas \<open>float64\<close> cell: a finite number (an exact rational here), an infinity or
  NaN. Dividing by zero raises nothing in pandas: a non-zero numerator gives an infinity
  of its sign, zero by zero gives NaN (the divisor is the positive zero that a CSV cell
  \<open>0\<close> is read as).
\<close>

datatype float64 = Fin rat | PInf | NInf | NaN

definition np_div :: "rat \<Rightarrow> rat \<Rightarrow> float64" where
  "np_div a b =
     (if b \<noteq> 0 then Fin (a / b) else if a > 0 then PInf else if a < 0 then NInf else NaN)"

fun np_mul :: "float64 \<Rightarrow> rat \<Rightarrow> float64" where
  "np_mul (Fin a) c = Fin (a * c)"
| "np_mul PInf c = (if c > 0 then PInf else if c < 0 then NInf else NaN)"
| "np_mul NInf c = (if c > 0 then NInf else if c < 0 then PInf else NaN)"
| "np_mul NaN c = NaN"

text \<open>
  \<open>rint\<close>: the nearest integer, halves to the even one. \<open>Series.round(n)\<close> of pandas
  and \<open>round(x, n)\<close> of Python both round halves to even.
\<close>

definition rint :: "rat \<Rightarrow> int" where
  "rint y =
     (let f = \<lfloor>y\<rfloor>; d = y - of_int f
      in if d < 1 / 2 then f else if d > 1 / 2 then f + 1 else if even f then f else f + 1)"

fun np_round :: "float64 \<Rightarrow> nat \<Rightarrow> float64" where
  "np_round (Fin a) n = Fin (of_int (rint (a * 10 ^ n)) / 10 ^ n)"
| "np_round PInf n = PInf"
| "np_round NInf n = NInf"
| "np_round NaN n = NaN"

text \<open>
  The columns \<open>transform_data\<close> adds to each row (\<open>Cost_Variance_%\<close> and
  \<open>Completion_Rate_%\<close> are spelled out, \<open>%\<close> not being a letter of a name).
\<close>

record etl_row =
  Delay_Days :: int
  Cost_Variance_Percent :: float64
  On_Time :: bool
  Completion_Rate_Percent :: float64

definition transform_row :: "project \<Rightarrow> etl_row" where
  "transform_row p =
     \<lparr> Delay_Days = end_date p - start_date p,
       Cost_Variance_Percent =
         np_round (np_mul (np_div (actual_cost p - planned_cost p) (planned_cost p)) 100) 2,
       On_Time = (actual_completion p \<ge> planned_completion p),
       Completion_Rate_Percent =
         np_round
           (np_mul (np_div (of_int (actual_completion p)) (of_int (planned_completion p))) 100) 2 \<rparr>"

definition transform_data :: "project list \<Rightarrow> (project \<times> etl_row) list" where
  "transform_data df = map (\<lambda>p. (p, transform_row p)) df"

section \<open>The constraints of the \<open>projects\<close> table (\<open>create_database.py\<close>)\<close>

definition valid_statuses :: "string list" where
  "valid_statuses = [''Not Started'', ''In Progress'', ''Completed'', ''Delayed'', ''On Hold'']"

text \<open>The six \<open>CHECK\<close> clauses of \<open>CREATE TABLE projects\<close>, in their order.\<close>

definition projects_check :: "project \<Rightarrow> bool" where
  "projects_check p \<longleftrightarrow>
     planned_cost p \<ge> 0
     \<and> actual_cost p \<ge> 0
     \<and> (planned_completion p \<ge> 0 \<and> planned_completion p \<le> 100)
     \<and> (actual_completion p \<ge> 0 \<and> actual_completion p \<le> 100)
     \<and> tasks_completed p \<le> tasks_total p
     \<and> status p \<in> set valid_statuses"

text \<open>
  The invariants 2 to 7 of the specification's data model, which speak of one row
  (invariant 1, the unique identifier, is the primary key).
\<close>

definition spec_invariants :: "project \<Rightarrow> bool" where
  "spec_invariants p \<longleftrightarrow>
     end_date p > start_date p
     \<and> planned_cost p > 0 \<and> actual_cost p > 0
     \<and> 0 \<le> planned_completion p \<and> planned_completion p \<le> 100
     \<and> 0 \<le> actual_completion p \<and> actual_completion p \<le> 100
     \<and> tasks_completed p \<le> tasks_total p
     \<and> planned_hours p > 0 \<and> actual_hours p \<ge> 0
     \<and> status p \<in> set valid_statuses"

section \<open>The loader (\<open>create_database.py\<close>)\<close>

text \<open>The exceptions of the scripts that the models return as values.\<close>

datatype error = FileNotFoundError | IntegrityError | KeyError string | IndexError | ValueError








text \<open>\<open>DataFrame.drop_duplicates\<close>: the first occurrence of each row stays, in order.\<close>

fun drop_seen :: "'a list \<Rightarrow> 'a list \<Rightarrow> 'a list" where
  "drop_seen seen [] = []"
| "drop_seen seen (x # xs) =
     (if x \<in> set seen then drop_seen seen xs else x # drop_seen (x # seen) xs)"

definition drop_duplicates :: "'a list \<Rightarrow> 'a list" where
  "drop_duplicates xs = drop_seen [] xs"










section \<open>The record generator (\<open>generate_project_data.py\<close>)\<close>

text \<open>
  One entry of \<open>DEPT_CONFIG\<close> (the key \<open>managers\<close> is the field \<open>config_managers\<close>,
  the name \<open>managers\<close> being the table of the store).
\<close>

record dept_config =
  config_managers :: "string list"
  cost_range :: "int \<times> int"
  duration_range :: "int \<times> int"
  project_types :: "string list"

definition DEPT_CONFIG :: "string \<Rightarrow> dept_config option" where
  "DEPT_CONFIG =
     map_of
       [(''Marketing'',
         \<lparr> config_managers = [''John Smith'', ''Sarah Lee'', ''Akash Verma'', ''Emma Watson''],
           cost_range = (10000, 50000),
           duration_range = (14, 84),
           project_types =
             [''Q1 Product Launch'', ''Social Media Campaign'', ''Brand Awareness Drive'',
              ''Content Marketing Strategy'', ''Email Marketing Automation'',
              ''Market Research Study'', ''Influencer Partnership Program'',
              ''Website Redesign'', ''SEO Optimization Project'', ''Customer Survey Initiative'',
              ''Trade Show Participation'', ''Video Marketing Campaign'',
              ''Rebranding Initiative'', ''PR Campaign Launch'', ''Lead Generation Program'',
              ''Mobile App Launch'', ''Partnership Marketing'', ''Event Marketing Strategy'',
              ''Loyalty Program Rollout'', ''Digital Ad Campaign''] \<rparr>),
        (''Operations'',
         \<lparr> config_managers = [''Priya Mehta'', ''Ravi Patel'', ''Aditi Nair'', ''Vikram Singh''],
           cost_range = (15000, 75000),
           duration_range = (28, 112),
           project_types =
             [''Warehouse Optimization'', ''Supply Chain Integration'',
              ''Quality Control Enhancement'', ''Inventory Management System'',
              ''Vendor Management Platform'', ''Process Automation Initiative'',
              ''Logistics Network Redesign'', ''Cost Reduction Program'',
              ''Safety Compliance Upgrade'', ''Equipment Maintenance Overhaul'',
              ''Distribution Center Expansion'', ''Lean Manufacturing Implementation'',
              ''Six Sigma Project'', ''Fleet Management System'', ''Production Line Upgrade'',
              ''Sustainability Initiative'', ''Waste Reduction Program'',
              ''Supplier Diversification'', ''Demand Forecasting System'',
              ''Cold Chain Management''] \<rparr>),
        (''IT'',
         \<lparr> config_managers = [''Neha Sharma'', ''Karan Gupta'', ''Rohit Singh'', ''Anjali Desai''],
           cost_range = (20000, 100000),
           duration_range = (42, 168),
           project_types =
             [''Cloud Migration Project'', ''Cybersecurity Enhancement'', ''ERP System Upgrade'',
              ''Data Center Modernization'', ''Mobile App Development'',
              ''API Integration Platform'', ''DevOps Pipeline Implementation'',
              ''Disaster Recovery Setup'', ''Network Infrastructure Upgrade'',
              ''CRM System Implementation'', ''Business Intelligence Dashboard'',
              ''Software License Optimization'', ''Database Migration'',
              ''Microservices Architecture'', ''AI/ML Model Deployment'',
              ''Zero Trust Security Model'', ''Backup System Overhaul'',
              ''Legacy System Decommission'', ''IoT Platform Development'',
              ''Blockchain Integration''] \<rparr>)]"

text \<open>
  \<open>datetime(year, month, day)\<close> as its proleptic Gregorian ordinal (\<open>toordinal\<close>);
  a month or a day out of range raises \<open>ValueError\<close>. Adding a \<open>timedelta\<close> of days
  adds to the ordinal.
\<close>

definition is_leap :: "int \<Rightarrow> bool" where
  "is_leap y \<longleftrightarrow> y mod 4 = 0 \<and> (y mod 100 \<noteq> 0 \<or> y mod 400 = 0)"

definition days_in_month :: "int \<Rightarrow> int \<Rightarrow> int" where
  "days_in_month y m =
     (if m = 2 then (if is_leap y then 29 else 28)
      else if m = 4 \<or> m = 6 \<or> m = 9 \<or> m = 11 then 30 else 31)"

definition days_before_year :: "int \<Rightarrow> int" where
  "days_before_year y = (y - 1) * 365 + (y - 1) div 4 - (y - 1) div 100 + (y - 1) div 400"

definition days_before_month :: "int \<Rightarrow> int \<Rightarrow> int" where
  "days_before_month y m = sum_list (map (days_in_month y) [1 .. m - 1])"

definition datetime :: "int \<Rightarrow> int \<Rightarrow> int \<Rightarrow> error + int" where
  "datetime y m d =
     (if 1 \<le> y \<and> y \<le> 9999 \<and> 1 \<le> m \<and> m \<le> 12 \<and> 1 \<le> d \<and> d \<le> days_in_month y m
      then Inr (days_before_year y + days_before_month y m + d)
      else Inl ValueError)"

text \<open>\<open>round(x, n)\<close> and \<open>int(x)\<close> of Python on exact numbers.\<close>

definition py_round :: "rat \<Rightarrow> nat \<Rightarrow> rat" where
  "py_round x n = of_int (rint (x * 10 ^ n)) / 10 ^ n"

definition py_int :: "rat \<Rightarrow> int" where
  "py_int x = (if x \<ge> 0 then \<lfloor>x\<rfloor> else \<lceil>x\<rceil>)"

text \<open>
  The values the calls of \<open>random\<close> return during one call of
  \<open>generate_realistic_project\<close>, in the order of the calls. Each call draws the actual
  completion and the hours variance at most once, in the branch of its status.
\<close>

record draws =
  manager_choice :: nat
  month_draw :: int
  day_draw :: int
  duration_draw :: int
  planned_cost_draw :: int
  cost_variance_draw :: rat
  tasks_total_draw :: int
  status_roll :: rat
  completion_draw :: int
  planned_hours_draw :: int
  hours_variance_draw :: rat

text \<open>
  The ranges of those calls: \<open>random.choice\<close> picks an index of the list,
  \<open>randint(a, b)\<close> and \<open>uniform(a, b)\<close> lie between their bounds, \<open>random()\<close> in [0,1).
\<close>

definition valid_draws :: "dept_config \<Rightarrow> draws \<Rightarrow> bool" where
  "valid_draws config d \<longleftrightarrow>
     manager_choice d < length (config_managers config)
     \<and> 7 \<le> month_draw d \<and> month_draw d \<le> 12
     \<and> 1 \<le> day_draw d \<and> day_draw d \<le> 28
     \<and> fst (duration_range config) \<le> duration_draw d
     \<and> duration_draw d \<le> snd (duration_range config)
     \<and> fst (cost_range config) \<le> planned_cost_draw d
     \<and> planned_cost_draw d \<le> snd (cost_range config)
     \<and> - (15 / 100) \<le> cost_variance_draw d \<and> cost_variance_draw d \<le> 20 / 100
     \<and> 30 \<le> tasks_total_draw d \<and> tasks_total_draw d \<le> 80
     \<and> 0 \<le> status_roll d \<and> status_roll d < 1
     \<and> (if status_roll d < 40 / 100 then True
         else if status_roll d < 75 / 100 then 50 \<le> completion_draw d \<and> completion_draw d \<le> 95
         else if status_roll d < 85 / 100 then 70 \<le> completion_draw d \<and> completion_draw d \<le> 90
         else if status_roll d < 95 / 100 then True
         else 20 \<le> completion_draw d \<and> completion_draw d \<le> 60)
     \<and> 400 \<le> planned_hours_draw d \<and> planned_hours_draw d \<le> 1200
     \<and> (if status_roll d < 40 / 100
         then - (10 / 100) \<le> hours_variance_draw d \<and> hours_variance_draw d \<le> 25 / 100
         else if status_roll d < 75 / 100
         then 0 \<le> hours_variance_draw d
              \<and> hours_variance_draw d \<le> of_int (completion_draw d) / 100
         else 0 \<le> hours_variance_draw d \<and> hours_variance_draw d \<le> 1 / 2)"

text \<open>
  \<open>generate_realistic_project\<close>. \<open>random.choice\<close> of an empty roster raises
  \<open>IndexError\<close> and \<open>randint\<close> of an empty range \<open>ValueError\<close>. The dates stay
  ordinals (the source formats them as \<open>%Y-%m-%d\<close>).
\<close>

definition generate_realistic_project ::
  "string \<Rightarrow> int \<Rightarrow> string \<Rightarrow> dept_config \<Rightarrow> draws \<Rightarrow> error + project" where
  "generate_realistic_project dept_name pid pname config d =
     (if config_managers config = [] then Inl IndexError
      else
        (case datetime 2024 (month_draw d) (day_draw d) of
           Inl e \<Rightarrow> Inl e
         | Inr start \<Rightarrow>
             if fst (duration_range config) > snd (duration_range config) then Inl ValueError
             else if fst (cost_range config) > snd (cost_range config) then Inl ValueError
             else
               (let mgr = config_managers config ! manager_choice d;
                    finish = start + duration_draw d;
                    pcost = planned_cost_draw d;
                    acost = py_round (of_int pcost * (1 + cost_variance_draw d)) 2;
                    ttotal = tasks_total_draw d;
                    roll = status_roll d;
                    (st, pcompl, acompl, tdone) =
                      (if roll < 40 / 100 then (''Completed'', 100, 100, ttotal)
                       else if roll < 75 / 100 then
                         (''In Progress'', 100, completion_draw d,
                          py_int (of_int ttotal * (of_int (completion_draw d) / 100)))
                       else if roll < 85 / 100 then
                         (''Delayed'', 100, completion_draw d,
                          py_int (of_int ttotal * (of_int (completion_draw d) / 100)))
                       else if roll < 95 / 100 then (''Not Started'', 100, 0, 0)
                       else
                         (''On Hold'', 100, completion_draw d,
                          py_int (of_int ttotal * (of_int (completion_draw d) / 100))));
                    phours = planned_hours_draw d;
                    ahours = py_int (of_int phours * (1 + hours_variance_draw d))
                in Inr \<lparr> project_id = pid, department = dept_name, project_name = pname,
                         manager = mgr, start_date = start, end_date = finish,
                         planned_cost = of_int pcost, actual_cost = acost,
                         planned_completion = pcompl, actual_completion = acompl,
                         status = st, tasks_total = ttotal, tasks_completed = tdone,
                         planned_hours = phours, actual_hours = ahours \<rparr>)))"

text \<open>
  \<open>generate_department_dataset\<close>: the names come from \<open>random.sample\<close> (here a list
  of distinct indices into \<open>project_types\<close>, which raises \<open>ValueError\<close> when more
  names are asked for than there are), and the \<open>i\<close>-th project has the identifier
  \<open>id_start + i\<close>.
\<close>

fun generate_rows ::
  "string \<Rightarrow> dept_config \<Rightarrow> int \<Rightarrow> (string \<times> draws) list \<Rightarrow> error + project list" where
  "generate_rows dept_name config pid [] = Inr []"
| "generate_rows dept_name config pid ((pname, d) # rest) =
     (case generate_realistic_project dept_name pid pname config d of
        Inl e \<Rightarrow> Inl e
      | Inr p \<Rightarrow>
          (case generate_rows dept_name config (pid + 1) rest of
             Inl e \<Rightarrow> Inl e
           | Inr ps \<Rightarrow> Inr (p # ps)))"

definition generate_department_dataset ::
  "string \<Rightarrow> int \<Rightarrow> nat list \<Rightarrow> draws list \<Rightarrow> error + project list" where
  "generate_department_dataset dept_name id_start sample ds =
     (case DEPT_CONFIG dept_name of
        None \<Rightarrow> Inl (KeyError dept_name)
      | Some config \<Rightarrow>
          if length sample > length (project_types config) then Inl ValueError
          else generate_rows dept_name config id_start
                 (zip (map (\<lambda>i. project_types config ! i) sample) ds))"

text \<open>Draws for examples, in the Marketing department.\<close>

definition sample_draws :: draws where
  "sample_draws =
     \<lparr> manager_choice = 0, month_draw = 7, day_draw = 1, duration_draw = 30,
       planned_cost_draw = 30000, cost_variance_draw = 5 / 100, tasks_total_draw = 40,
       status_roll = 50 / 100, completion_draw = 80, planned_hours_draw = 800,
       hours_variance_draw = 30 / 100 \<rparr>"

definition marketing_config :: dept_config where
  "marketing_config = the (DEPT_CONFIG ''Marketing'')"

definition completed_draws :: draws where
  "completed_draws = sample_draws\<lparr>status_roll := 10 / 100, hours_variance_draw := 10 / 100\<rparr>"

definition completed_project :: project where
  "completed_project =
     \<lparr> project_id = 1001, department = ''Marketing'', project_name = ''Website Redesign'',
       manager = ''John Smith'', start_date = 739068, end_date = 739098,
       planned_cost = 30000, actual_cost = 31500,
       planned_completion = 100, actual_completion = 100, status = ''Completed'',
       tasks_total = 40, tasks_completed = 40, planned_hours = 800, actual_hours = 880 \<rparr>"

section \<open>The validator (\<open>validate_data.py\<close>)\<close>

text \<open>
  A CSV file as \<open>pd.read_csv\<close> loads it: its column names and its rows. A cell is
  \<open>None\<close> when it is empty (NaN). The cells are typed as the schema of the data model
  types them; a date cell holds a text that \<open>pd.to_datetime\<close> either parses to a day
  or does not. A row carries a cell for each of the fifteen expected columns; the cell of
  a column that its file does not have is not read (see \<open>align\<close>).
\<close>

datatype date_text = Unparseable | Day int

record row =
  Project_ID :: "int option"
  Department :: "string option"
  Project_Name :: "string option"
  Manager :: "string option"
  Start_Date :: "date_text option"
  End_Date :: "date_text option"
  Planned_Cost :: "rat option"
  Actual_Cost :: "rat option"
  Planned_Completion :: "int option"
  Actual_Completion :: "int option"
  Status :: "string option"
  Tasks_Total :: "int option"
  Tasks_Completed :: "int option"
  Planned_Hours :: "int option"
  Actual_Hours :: "int option"

record frame =
  columns :: "string list"
  rows :: "row list"

definition expected_columns :: "string list" where
  "expected_columns =
     [''Project_ID'', ''Department'', ''Project_Name'', ''Manager'',
      ''Start_Date'', ''End_Date'', ''Planned_Cost'', ''Actual_Cost'',
      ''Planned_Completion'', ''Actual_Completion'', ''Status'',
      ''Tasks_Total'', ''Tasks_Completed'', ''Planned_Hours'', ''Actual_Hours'']"

text \<open>
  \<open>pd.concat([marketing, operations, it], ignore_index=True)\<close>: the columns are the
  union of the columns of the frames, and a row has NaN in each column that its own
  frame does not have.
\<close>

definition cell :: "string \<Rightarrow> frame \<Rightarrow> 'a option \<Rightarrow> 'a option" where
  "cell c df v = (if c \<in> set (columns df) then v else None)"

definition align :: "frame \<Rightarrow> row \<Rightarrow> row" where
  "align df r =
     \<lparr> Project_ID = cell ''Project_ID'' df (Project_ID r),
       Department = cell ''Department'' df (Department r),
       Project_Name = cell ''Project_Name'' df (Project_Name r),
       Manager = cell ''Manager'' df (Manager r),
       Start_Date = cell ''Start_Date'' df (Start_Date r),
       End_Date = cell ''End_Date'' df (End_Date r),
       Planned_Cost = cell ''Planned_Cost'' df (Planned_Cost r),
       Actual_Cost = cell ''Actual_Cost'' df (Actual_Cost r),
       Planned_Completion = cell ''Planned_Completion'' df (Planned_Completion r),
       Actual_Completion = cell ''Actual_Completion'' df (Actual_Completion r),
       Status = cell ''Status'' df (Status r),
       Tasks_Total = cell ''Tasks_Total'' df (Tasks_Total r),
       Tasks_Completed = cell ''Tasks_Completed'' df (Tasks_Completed r),
       Planned_Hours = cell ''Planned_Hours'' df (Planned_Hours r),
       Actual_Hours = cell ''Actual_Hours'' df (Actual_Hours r) \<rparr>"

definition concat_frames :: "frame list \<Rightarrow> frame" where
  "concat_frames dfs =
     \<lparr> columns = drop_duplicates (concat (map columns dfs)),
       rows = concat (map (\<lambda>df. map (align df) (rows df)) dfs) \<rparr>"

text \<open>
  \<open>df[c]\<close> raises \<open>KeyError\<close> when the frame has no column \<open>c\<close>. A comparison with
  NaN is false: \<open>holds P v\<close> is the value of a comparison \<open>P\<close> on the cell \<open>v\<close>.
\<close>

definition bindE :: "error + 'a \<Rightarrow> ('a \<Rightarrow> error + 'b) \<Rightarrow> error + 'b" where
  "bindE m f = (case m of Inl e \<Rightarrow> Inl e | Inr x \<Rightarrow> f x)"

definition column :: "string \<Rightarrow> frame \<Rightarrow> error + unit" where
  "column c df = (if c \<in> set (columns df) then Inr () else Inl (KeyError c))"

definition holds :: "('a \<Rightarrow> bool) \<Rightarrow> 'a option \<Rightarrow> bool" where
  "holds P v = (case v of None \<Rightarrow> False | Some x \<Rightarrow> P x)"

definition holds2 :: "('a \<Rightarrow> 'b \<Rightarrow> bool) \<Rightarrow> 'a option \<Rightarrow> 'b option \<Rightarrow> bool" where
  "holds2 P v w = (case v of None \<Rightarrow> False | Some x \<Rightarrow> holds (P x) w)"

text \<open>
  The state of \<open>validate_datasets\<close>: the flag \<open>validation_passed\<close>, and the number of
  warning lines printed so far (the list \<open>issues\<close> is only printed).
\<close>

record vstate =
  validation_passed :: bool
  warnings :: nat

definition failed :: "vstate \<Rightarrow> vstate" where
  "failed s = s\<lparr>validation_passed := False\<rparr>"

definition warned :: "vstate \<Rightarrow> vstate" where
  "warned s = s\<lparr>warnings := warnings s + 1\<rparr>"

subsection \<open>1. Schema validation\<close>

definition missing_cols :: "frame \<Rightarrow> string list" where
  "missing_cols df = filter (\<lambda>c. c \<notin> set (columns df)) expected_columns"

definition extra_cols :: "frame \<Rightarrow> string list" where
  "extra_cols df = filter (\<lambda>c. c \<notin> set expected_columns) (columns df)"

definition check_schema :: "vstate \<Rightarrow> frame \<Rightarrow> vstate" where
  "check_schema s df = (if missing_cols df \<noteq> [] \<or> extra_cols df \<noteq> [] then failed s else s)"

subsection \<open>2. Data integrity checks\<close>

text \<open>
  \<open>duplicated(subset=['Project_ID'], keep=False)\<close> marks every row whose identifier
  occurs more than once (two empty identifiers count as equal).
\<close>

definition duplicate_ids :: "frame \<Rightarrow> int option list" where
  "duplicate_ids all_data =
     (let ids = map Project_ID (rows all_data) in filter (\<lambda>k. count_list ids k > 1) ids)"

definition check_unique_ids :: "frame \<Rightarrow> vstate \<Rightarrow> error + vstate" where
  "check_unique_ids all_data s =
     bindE (column ''Project_ID'' all_data)
       (\<lambda>_. Inr (if duplicate_ids all_data \<noteq> [] then failed s else s))"

definition print_id_ranges :: "frame \<Rightarrow> frame \<Rightarrow> frame \<Rightarrow> error + unit" where
  "print_id_ranges marketing operations it =
     bindE (column ''Project_ID'' marketing)
       (\<lambda>_. bindE (column ''Project_ID'' operations) (\<lambda>_. column ''Project_ID'' it))"

text \<open>
  \<open>all_data.isnull().sum().sum()\<close> over the expected columns that \<open>all_data\<close> has. (A
  column outside the expected ones, which the schema check has failed already, can only
  add to the count.)
\<close>

definition null_cells :: "row \<Rightarrow> (string \<times> bool) list" where
  "null_cells r =
     [(''Project_ID'', Project_ID r = None), (''Department'', Department r = None),
      (''Project_Name'', Project_Name r = None), (''Manager'', Manager r = None),
      (''Start_Date'', Start_Date r = None), (''End_Date'', End_Date r = None),
      (''Planned_Cost'', Planned_Cost r = None), (''Actual_Cost'', Actual_Cost r = None),
      (''Planned_Completion'', Planned_Completion r = None),
      (''Actual_Completion'', Actual_Completion r = None),
      (''Status'', Status r = None),
      (''Tasks_Total'', Tasks_Total r = None), (''Tasks_Completed'', Tasks_Completed r = None),
      (''Planned_Hours'', Planned_Hours r = None), (''Actual_Hours'', Actual_Hours r = None)]"

definition total_missing :: "frame \<Rightarrow> nat" where
  "total_missing all_data =
     sum_list
       (map (\<lambda>r. length (filter (\<lambda>cn. snd cn \<and> fst cn \<in> set (columns all_data)) (null_cells r)))
          (rows all_data))"

definition check_missing :: "frame \<Rightarrow> vstate \<Rightarrow> vstate" where
  "check_missing all_data s = (if total_missing all_data > 0 then failed s else s)"

subsection \<open>3. Date validation\<close>

text \<open>\<open>pd.to_datetime(..., errors='coerce')\<close>: NaT for an empty or unparseable cell.\<close>

definition to_datetime :: "date_text option \<Rightarrow> int option" where
  "to_datetime v = (case v of None \<Rightarrow> None | Some Unparseable \<Rightarrow> None | Some (Day n) \<Rightarrow> Some n)"

definition duration_days :: "row \<Rightarrow> int option" where
  "duration_days r =
     (case to_datetime (End_Date r) of
        None \<Rightarrow> None
      | Some e \<Rightarrow> (case to_datetime (Start_Date r) of None \<Rightarrow> None | Some b \<Rightarrow> Some (e - b)))"

definition invalid_start :: "frame \<Rightarrow> nat" where
  "invalid_start all_data =
     length (filter (\<lambda>r. to_datetime (Start_Date r) = None) (rows all_data))"

definition invalid_end :: "frame \<Rightarrow> nat" where
  "invalid_end all_data =
     length (filter (\<lambda>r. to_datetime (End_Date r) = None) (rows all_data))"

definition invalid_duration :: "frame \<Rightarrow> row list" where
  "invalid_duration all_data = filter (\<lambda>r. holds (\<lambda>n. n \<le> 0) (duration_days r)) (rows all_data)"

definition check_dates :: "frame \<Rightarrow> vstate \<Rightarrow> error + vstate" where
  "check_dates all_data s =
     bindE (column ''Start_Date'' all_data) (\<lambda>_.
     bindE (column ''End_Date'' all_data) (\<lambda>_.
       (let s1 = (if invalid_start all_data > 0 \<or> invalid_end all_data > 0 then failed s else s)
        in if invalid_duration all_data \<noteq> []
           then bindE (column ''Project_ID'' all_data) (\<lambda>_.
                bindE (column ''Project_Name'' all_data) (\<lambda>_. Inr (failed s1)))
           else Inr s1)))"

subsection \<open>4. Business logic validation\<close>

definition negative_planned :: "frame \<Rightarrow> row list" where
  "negative_planned all_data = filter (\<lambda>r. holds (\<lambda>v. v \<le> 0) (Planned_Cost r)) (rows all_data)"

definition negative_actual :: "frame \<Rightarrow> row list" where
  "negative_actual all_data = filter (\<lambda>r. holds (\<lambda>v. v \<le> 0) (Actual_Cost r)) (rows all_data)"

text \<open>
  The column \<open>Cost_Variance_Pct\<close> of the validator, in \<open>float64\<close>: NaN where a cost is
  empty, and the division by a zero planned cost as \<open>np_div\<close> has it.
\<close>

definition validator_cost_pct :: "row \<Rightarrow> float64" where
  "validator_cost_pct r =
     (case Actual_Cost r of
        None \<Rightarrow> NaN
      | Some a \<Rightarrow> (case Planned_Cost r of None \<Rightarrow> NaN | Some p \<Rightarrow> np_mul (np_div (a - p) p) 100))"

fun abs_exceeds :: "float64 \<Rightarrow> rat \<Rightarrow> bool" where
  "abs_exceeds (Fin v) b = (\<bar>v\<bar> > b)"
| "abs_exceeds PInf b = True"
| "abs_exceeds NInf b = True"
| "abs_exceeds NaN b = False"

definition extreme_variance :: "frame \<Rightarrow> row list" where
  "extreme_variance all_data = filter (\<lambda>r. abs_exceeds (validator_cost_pct r) 50) (rows all_data)"

definition check_costs :: "frame \<Rightarrow> vstate \<Rightarrow> error + vstate" where
  "check_costs all_data s =
     bindE (column ''Planned_Cost'' all_data) (\<lambda>_.
     bindE (column ''Actual_Cost'' all_data) (\<lambda>_.
       (let s1 = (if negative_planned all_data \<noteq> [] \<or> negative_actual all_data \<noteq> []
                  then failed s else s)
        in Inr (if extreme_variance all_data \<noteq> [] then warned s1 else s1))))"

definition invalid_planned :: "frame \<Rightarrow> row list" where
  "invalid_planned all_data =
     filter (\<lambda>r. holds (\<lambda>v. v < 0) (Planned_Completion r) \<or> holds (\<lambda>v. v > 100) (Planned_Completion r))
       (rows all_data)"

definition invalid_actual :: "frame \<Rightarrow> row list" where
  "invalid_actual all_data =
     filter (\<lambda>r. holds (\<lambda>v. v < 0) (Actual_Completion r) \<or> holds (\<lambda>v. v > 100) (Actual_Completion r))
       (rows all_data)"

definition check_completion :: "frame \<Rightarrow> vstate \<Rightarrow> error + vstate" where
  "check_completion all_data s =
     bindE (column ''Planned_Completion'' all_data) (\<lambda>_.
     bindE (column ''Actual_Completion'' all_data) (\<lambda>_.
       Inr (if invalid_planned all_data \<noteq> [] \<or> invalid_actual all_data \<noteq> [] then failed s else s)))"

definition invalid_tasks :: "frame \<Rightarrow> row list" where
  "invalid_tasks all_data =
     filter (\<lambda>r. holds2 (\<lambda>c t. c > t) (Tasks_Completed r) (Tasks_Total r)) (rows all_data)"

definition check_tasks :: "frame \<Rightarrow> vstate \<Rightarrow> error + vstate" where
  "check_tasks all_data s =
     bindE (column ''Tasks_Completed'' all_data) (\<lambda>_.
     bindE (column ''Tasks_Total'' all_data) (\<lambda>_.
       if invalid_tasks all_data \<noteq> []
       then bindE (column ''Project_ID'' all_data) (\<lambda>_.
            bindE (column ''Project_Name'' all_data) (\<lambda>_. Inr (failed s)))
       else Inr s))"

text \<open>\<open>~all_data['Status'].isin(valid_statuses)\<close>: an empty status is not in the list.\<close>

definition invalid_status :: "frame \<Rightarrow> row list" where
  "invalid_status all_data =
     filter (\<lambda>r. \<not> holds (\<lambda>v. v \<in> set valid_statuses) (Status r)) (rows all_data)"

definition check_status :: "frame \<Rightarrow> vstate \<Rightarrow> error + vstate" where
  "check_status all_data s =
     bindE (column ''Status'' all_data) (\<lambda>_.
       Inr (if invalid_status all_data \<noteq> [] then failed s else s))"

definition negative_hours :: "frame \<Rightarrow> row list" where
  "negative_hours all_data =
     filter (\<lambda>r. holds (\<lambda>v. v \<le> 0) (Planned_Hours r) \<or> holds (\<lambda>v. v < 0) (Actual_Hours r))
       (rows all_data)"

definition check_hours :: "frame \<Rightarrow> vstate \<Rightarrow> error + vstate" where
  "check_hours all_data s =
     bindE (column ''Planned_Hours'' all_data) (\<lambda>_.
     bindE (column ''Actual_Hours'' all_data) (\<lambda>_.
       Inr (if negative_hours all_data \<noteq> [] then failed s else s)))"

subsection \<open>5. Department-specific validation\<close>

definition out_of_range :: "frame \<Rightarrow> rat \<times> rat \<Rightarrow> row list" where
  "out_of_range df expected_range =
     filter (\<lambda>r. holds (\<lambda>v. v < fst expected_range) (Planned_Cost r)
                  \<or> holds (\<lambda>v. v > snd expected_range) (Planned_Cost r))
       (rows df)"

definition check_department :: "vstate \<Rightarrow> frame \<times> rat \<times> rat \<Rightarrow> error + vstate" where
  "check_department s d =
     bindE (column ''Planned_Cost'' (fst d)) (\<lambda>_.
       Inr (if out_of_range (fst d) (snd d) \<noteq> [] then warned s else s))"

fun foldE :: "('s \<Rightarrow> 'a \<Rightarrow> error + 's) \<Rightarrow> 's \<Rightarrow> 'a list \<Rightarrow> error + 's" where
  "foldE f s [] = Inr s"
| "foldE f s (x # xs) = bindE (f s x) (\<lambda>s'. foldE f s' xs)"

subsection \<open>The whole validation\<close>

text \<open>\<open>validate_datasets\<close> from the three loaded frames on.\<close>

definition validate_frames :: "frame \<Rightarrow> frame \<Rightarrow> frame \<Rightarrow> error + vstate" where
  "validate_frames marketing operations it =
     (let all_data = concat_frames [marketing, operations, it];
          s0 = \<lparr> validation_passed = True, warnings = 0 \<rparr>;
          s1 = foldl check_schema s0 [marketing, operations, it]
      in bindE (check_unique_ids all_data s1) (\<lambda>s2.
         bindE (print_id_ranges marketing operations it) (\<lambda>_.
         bindE (check_dates all_data (check_missing all_data s2)) (\<lambda>s3.
         bindE (check_costs all_data s3) (\<lambda>s4.
         bindE (check_completion all_data s4) (\<lambda>s5.
         bindE (check_tasks all_data s5) (\<lambda>s6.
         bindE (check_status all_data s6) (\<lambda>s7.
         bindE (check_hours all_data s7) (\<lambda>s8.
         foldE check_department s8
           [(marketing, 10000, 50000), (operations, 15000, 75000), (it, 20000, 100000)])))))))))"

text \<open>
  \<open>validate_datasets\<close>: \<open>None\<close> is a CSV file that is not there, for which
  \<open>pd.read_csv\<close> raises \<open>FileNotFoundError\<close> and the function returns \<open>False\<close>.
\<close>

definition validate_datasets :: "frame option \<Rightarrow> frame option \<Rightarrow> frame option \<Rightarrow> error + bool" where
  "validate_datasets marketing_csv operations_csv it_csv =
     (case marketing_csv of
        None \<Rightarrow> Inr False
      | Some marketing \<Rightarrow>
          (case operations_csv of
             None \<Rightarrow> Inr False
           | Some operations \<Rightarrow>
               (case it_csv of
                  None \<Rightarrow> Inr False
                | Some it \<Rightarrow>
                    bindE (validate_frames marketing operations it)
                      (\<lambda>s. Inr (validation_passed s)))))"

text \<open>
  The exit status of the script: its last statement calls \<open>validate_datasets()\<close> and
  drops the value, so the interpreter exits with 0 unless an exception was not caught
  (status 1). The last statement of \<open>etl_pipeline.py\<close>, for comparison, is
  \<open>sys.exit(0 if success else 1)\<close>.
\<close>

definition validate_data_main :: "frame option \<Rightarrow> frame option \<Rightarrow> frame option \<Rightarrow> int" where
  "validate_data_main marketing_csv operations_csv it_csv =
     (case validate_datasets marketing_csv operations_csv it_csv of Inl e \<Rightarrow> 1 | Inr _ \<Rightarrow> 0)"

definition etl_pipeline_main :: "bool \<Rightarrow> int" where
  "etl_pipeline_main success = (if success then 0 else 1)"

subsection \<open>The hard violations of the specification\<close>

text \<open>
  The checks that the specification lists as hard violations, stated on the record set
  itself: the schema of each department's file, the uniqueness of the identifiers, and
  for every record no missing value, parseable dates with the end after the start,
  positive costs, completion percentages in [0,100], no more completed tasks than tasks,
  a status of the fixed set, positive planned and non-negative actual hours.
\<close>

definition conforms :: "frame \<Rightarrow> bool" where
  "conforms df \<longleftrightarrow> set (columns df) = set expected_columns"

definition record_valid :: "row \<Rightarrow> bool" where
  "record_valid r \<longleftrightarrow>
     Project_ID r \<noteq> None \<and> Department r \<noteq> None \<and> Project_Name r \<noteq> None \<and> Manager r \<noteq> None
     \<and> Start_Date r \<noteq> None \<and> End_Date r \<noteq> None
     \<and> Planned_Cost r \<noteq> None \<and> Actual_Cost r \<noteq> None
     \<and> Planned_Completion r \<noteq> None \<and> Actual_Completion r \<noteq> None \<and> Status r \<noteq> None
     \<and> Tasks_Total r \<noteq> None \<and> Tasks_Completed r \<noteq> None
     \<and> Planned_Hours r \<noteq> None \<and> Actual_Hours r \<noteq> None
     \<and> holds2 (\<lambda>b e. b < e) (to_datetime (Start_Date r)) (to_datetime (End_Date r))
     \<and> holds (\<lambda>v. v > 0) (Planned_Cost r) \<and> holds (\<lambda>v. v > 0) (Actual_Cost r)
     \<and> holds (\<lambda>v. 0 \<le> v \<and> v \<le> 100) (Planned_Completion r)
     \<and> holds (\<lambda>v. 0 \<le> v \<and> v \<le> 100) (Actual_Completion r)
     \<and> holds2 (\<lambda>c t. c \<le> t) (Tasks_Completed r) (Tasks_Total r)
     \<and> holds (\<lambda>v. v \<in> set valid_statuses) (Status r)
     \<and> holds (\<lambda>v. v > 0) (Planned_Hours r) \<and> holds (\<lambda>v. v \<ge> 0) (Actual_Hours r)"

definition zero_hard_violations :: "frame \<Rightarrow> frame \<Rightarrow> frame \<Rightarrow> bool" where
  "zero_hard_violations marketing operations it \<longleftrightarrow>
     conforms marketing \<and> conforms operations \<and> conforms it
     \<and> distinct (map Project_ID (rows marketing @ rows operations @ rows it))
     \<and> (\<forall>r \<in> set (rows marketing @ rows operations @ rows it). record_valid r)"

text \<open>Frames for examples.\<close>

definition sample_row :: row where
  "sample_row =
     \<lparr> Project_ID = Some 1001, Department = Some ''Marketing'',
       Project_Name = Some ''Website Redesign'', Manager = Some ''John Smith'',
       Start_Date = Some (Day 739068), End_Date = Some (Day 739098),
       Planned_Cost = Some 30000, Actual_Cost = Some 31500,
       Planned_Completion = Some 100, Actual_Completion = Some 80,
       Status = Some ''In Progress'', Tasks_Total = Some 40, Tasks_Completed = Some 32,
       Planned_Hours = Some 800, Actual_Hours = Some 1040 \<rparr>"

definition marketing_frame :: frame where
  "marketing_frame = \<lparr> columns = expected_columns, rows = [sample_row] \<rparr>"

definition operations_frame :: frame where
  "operations_frame =
     \<lparr> columns = expected_columns,
       rows = [sample_row\<lparr>Project_ID := Some 2001, Department := Some ''Operations'',
                 Manager := Some ''Priya Mehta''\<rparr>] \<rparr>"

definition it_frame :: frame where
  "it_frame =
     \<lparr> columns = expected_columns,
       rows = [sample_row\<lparr>Project_ID := Some 3001, Department := Some ''IT'',
                 Manager := Some ''Neha Sharma''\<rparr>] \<rparr>"

text \<open>
  A Marketing file with a cost overrun of 100 percent on a planned cost below the
  department's budget range (two warnings), and one with more completed tasks than tasks.
\<close>

definition warning_frame :: frame where
  "warning_frame =
     \<lparr> columns = expected_columns,
       rows = [sample_row\<lparr>Planned_Cost := Some 5000, Actual_Cost := Some 10000\<rparr>] \<rparr>"

definition bad_tasks_frame :: frame where
  "bad_tasks_frame =
     \<lparr> columns = expected_columns, rows = [sample_row\<lparr>Tasks_Completed := Some 41\<rparr>] \<rparr>"

subsection \<open>The checks on one row\<close>

text \<open>What the checks on one frame leave unflagged, on one row.\<close>

definition row_clear :: "row \<Rightarrow> bool" where
  "row_clear r \<longleftrightarrow>
     (\<forall>cn \<in> set (null_cells r). \<not> snd cn)
     \<and> to_datetime (Start_Date r) \<noteq> None \<and> to_datetime (End_Date r) \<noteq> None
     \<and> \<not> holds (\<lambda>n. n \<le> 0) (duration_days r)
     \<and> \<not> holds (\<lambda>v. v \<le> 0) (Planned_Cost r) \<and> \<not> holds (\<lambda>v. v \<le> 0) (Actual_Cost r)
     \<and> \<not> (holds (\<lambda>v. v < 0) (Planned_Completion r) \<or> holds (\<lambda>v. v > 100) (Planned_Completion r))
     \<and> \<not> (holds (\<lambda>v. v < 0) (Actual_Completion r) \<or> holds (\<lambda>v. v > 100) (Actual_Completion r))
     \<and> \<not> holds2 (\<lambda>c t. c > t) (Tasks_Completed r) (Tasks_Total r)
     \<and> holds (\<lambda>v. v \<in> set valid_statuses) (Status r)
     \<and> \<not> (holds (\<lambda>v. v \<le> 0) (Planned_Hours r) \<or> holds (\<lambda>v. v < 0) (Actual_Hours r))"

definition checks_clear :: "frame \<Rightarrow> bool" where
  "checks_clear A \<longleftrightarrow>
     total_missing A = 0
     \<and> invalid_start A = 0 \<and> invalid_end A = 0 \<and> invalid_duration A = []
     \<and> negative_planned A = [] \<and> negative_actual A = []
     \<and> invalid_planned A = [] \<and> invalid_actual A = []
     \<and> invalid_tasks A = [] \<and> invalid_status A = [] \<and> negative_hours A = []"

section \<open>Classification columns of the view\<close>

lemma floor_rat_numeral [simp]:
  "\<lfloor>numeral a / numeral b :: rat\<rfloor> = numeral a div numeral b"
  by (metis floor_divide_of_int_eq of_int_numeral)




text \<open>
  C6. \<open>Delivery_Status\<close> is On-Time exactly when the status is Completed and the actual
  completion is 100, Delayed when the status is Delayed, and In-Progress in every other
  case; a Completed row at 90 percent is In-Progress.
\<close>

theorem delivery_status_cases:
  "(Delivery_Status (kpi_metrics p) = ''On-Time''
      \<longleftrightarrow> status p = ''Completed'' \<and> actual_completion p = 100)
   \<and> (status p = ''Delayed'' \<longrightarrow> Delivery_Status (kpi_metrics p) = ''Delayed'')
   \<and> (\<not> (status p = ''Completed'' \<and> actual_completion p = 100) \<and> status p \<noteq> ''Delayed''
        \<longrightarrow> Delivery_Status (kpi_metrics p) = ''In-Progress'')
   \<and> Delivery_Status (kpi_metrics (sample_project\<lparr>status := ''Completed'', actual_completion := 90\<rparr>))
       = ''In-Progress''"
  by (simp add: kpi_metrics_def)

theorem delivery_status_cases_witness:
  "status (sample_project\<lparr>status := ''Delayed'', actual_completion := 80\<rparr>) = ''Delayed''
   \<and> Delivery_Status (kpi_metrics (sample_project\<lparr>status := ''Delayed'', actual_completion := 80\<rparr>))
       = ''Delayed''
   \<and> Delivery_Status (kpi_metrics sample_project) = ''On-Time''"
  using delivery_status_cases [of "sample_project\<lparr>status := ''Delayed'', actual_completion := 80\<rparr>"]
    delivery_status_cases [of sample_project]
  by (simp add: sample_project_def)

section \<open>The two computations of the cost variance percentage\<close>







section \<open>Division by zero in the KPI formulas\<close>




section \<open>What the table's constraints accept\<close>

text \<open>
  C4, as the code has it. A row that the \<open>CHECK\<close> clauses accept has non-negative
  costs, both completion percentages in [0,100], no more completed tasks than tasks, and
  a status of the fixed set. It satisfies all the invariants of the data model exactly
  when, besides, its end date is after its start date, neither cost is zero, its planned
  hours are positive and its actual hours non-negative: the clauses check none of these.
  Every row that satisfies the invariants is accepted.
\<close>

theorem projects_check_guarantees:
  "(projects_check p \<longrightarrow>
      planned_cost p \<ge> 0 \<and> actual_cost p \<ge> 0
      \<and> 0 \<le> planned_completion p \<and> planned_completion p \<le> 100
      \<and> 0 \<le> actual_completion p \<and> actual_completion p \<le> 100
      \<and> tasks_completed p \<le> tasks_total p
      \<and> status p \<in> set valid_statuses
      \<and> (spec_invariants p \<longleftrightarrow>
           end_date p > start_date p \<and> planned_cost p \<noteq> 0 \<and> actual_cost p \<noteq> 0
           \<and> planned_hours p > 0 \<and> actual_hours p \<ge> 0))
   \<and> (spec_invariants p \<longrightarrow> projects_check p)"
  unfolding projects_check_def spec_invariants_def by auto

theorem projects_check_guarantees_witness:
  "projects_check sample_project \<and> spec_invariants sample_project
   \<and> planned_cost sample_project \<ge> 0 \<and> status sample_project \<in> set valid_statuses"
  using projects_check_guarantees [of sample_project]
  by (simp add: projects_check_def sample_project_def valid_statuses_def)

text \<open>
  The claim C4 as stated fails at a row with planned cost 0, equal start and end dates
  and zero planned hours: the clauses accept it and it breaks three invariants.
\<close>

theorem projects_check_accepts_invalid_row:
  "projects_check (sample_project\<lparr>end_date := 739068, planned_cost := 0, planned_hours := 0\<rparr>)
   \<and> \<not> spec_invariants (sample_project\<lparr>end_date := 739068, planned_cost := 0, planned_hours := 0\<rparr>)
   \<and> \<not> planned_cost (sample_project\<lparr>end_date := 739068, planned_cost := 0, planned_hours := 0\<rparr>) > 0
   \<and> \<not> end_date (sample_project\<lparr>end_date := 739068, planned_cost := 0, planned_hours := 0\<rparr>)
        > start_date (sample_project\<lparr>end_date := 739068, planned_cost := 0, planned_hours := 0\<rparr>)
   \<and> \<not> planned_hours (sample_project\<lparr>end_date := 739068, planned_cost := 0, planned_hours := 0\<rparr>) > 0"
  by (simp add: projects_check_def spec_invariants_def sample_project_def valid_statuses_def)

section \<open>The managers table after a load\<close>

lemma set_drop_seen: "set (drop_seen seen xs) = set xs - set seen"
  by (induction xs arbitrary: seen) auto

lemma set_drop_duplicates: "set (drop_duplicates xs) = set xs"
  by (simp add: drop_duplicates_def set_drop_seen)











section \<open>Postconditions of the generator\<close>

lemma dept_config_ok:
  assumes "DEPT_CONFIG dept_name = Some config"
  shows "config_managers config \<noteq> []
         \<and> 1 \<le> fst (duration_range config)
         \<and> fst (duration_range config) \<le> snd (duration_range config)
         \<and> 1 \<le> fst (cost_range config)
         \<and> fst (cost_range config) \<le> snd (cost_range config)"
  using assms unfolding DEPT_CONFIG_def by (auto split: if_splits)

lemma datetime_2024:
  assumes "7 \<le> m" "m \<le> 12" "1 \<le> d" "d \<le> 28"
  shows "datetime 2024 m d = Inr (days_before_year 2024 + days_before_month 2024 m + d)"
  using assms by (simp add: datetime_def days_in_month_def)

lemma py_int_share_le:
  assumes "0 \<le> t" and "0 \<le> c" and "c \<le> 100"
  shows "py_int (of_int t * (of_int c / 100)) \<le> t"
proof -
  have c1: "(of_int c :: rat) / 100 \<le> 1" and c0: "0 \<le> (of_int c :: rat) / 100"
    using assms by simp_all
  have t0: "0 \<le> (of_int t :: rat)" using assms by simp
  have "(of_int t :: rat) * (of_int c / 100) \<le> of_int t * 1"
    using c1 t0 by (rule mult_left_mono)
  then have le: "(of_int t :: rat) * (of_int c / 100) \<le> of_int t" by simp
  have ge: "0 \<le> (of_int t :: rat) * (of_int c / 100)"
    using t0 c0 by (rule mult_nonneg_nonneg)
  from le have "\<lfloor>(of_int t :: rat) * (of_int c / 100)\<rfloor> \<le> t"
    by (simp add: floor_le_iff)
  with ge show ?thesis by (simp add: py_int_def)
qed

lemma rint_ge_floor: "\<lfloor>y\<rfloor> \<le> rint y"
  by (simp add: rint_def Let_def)

lemma py_round_cost_pos:
  assumes "1 \<le> pc" and "- (15 / 100) \<le> cv"
  shows "0 < py_round (of_int pc * (1 + cv)) 2"
proof -
  have a: "(1 :: rat) \<le> of_int pc" using assms(1) by simp
  have b: "(85 / 100 :: rat) \<le> 1 + cv" using assms(2) by simp
  have "1 * (85 / 100 :: rat) \<le> of_int pc * (1 + cv)"
    using a b by (intro mult_mono) simp_all
  then have "(85 :: rat) \<le> of_int pc * (1 + cv) * 100" by simp
  then have "85 \<le> \<lfloor>of_int pc * (1 + cv) * 100\<rfloor>" by (simp add: le_floor_iff)
  with rint_ge_floor [of "of_int pc * (1 + cv) * 100"]
  have "0 < rint (of_int pc * (1 + cv) * 100)" by linarith
  then show ?thesis by (simp add: py_round_def)
qed

text \<open>
  C9. For a department of \<open>DEPT_CONFIG\<close> and any values of the random calls within
  their ranges, \<open>generate_realistic_project\<close> returns a record, and that record has no
  more completed tasks than tasks, both completion percentages in [0,100], an end date
  after its start date, and a positive actual cost.
\<close>

theorem generated_project_invariants:
  assumes cfg: "DEPT_CONFIG dept_name = Some config"
    and draws: "valid_draws config d"
  shows "\<exists>p. generate_realistic_project dept_name pid pname config d = Inr p
           \<and> tasks_completed p \<le> tasks_total p
           \<and> 0 \<le> planned_completion p \<and> planned_completion p \<le> 100
           \<and> 0 \<le> actual_completion p \<and> actual_completion p \<le> 100
           \<and> end_date p > start_date p
           \<and> actual_cost p > 0"
proof -
  note ok = dept_config_ok [OF cfg]
  from draws have dt: "datetime 2024 (month_draw d) (day_draw d) =
      Inr (days_before_year 2024 + days_before_month 2024 (month_draw d) + day_draw d)"
    by (intro datetime_2024) (simp_all add: valid_draws_def)
  from draws ok have dur: "0 < duration_draw d" by (simp add: valid_draws_def)
  from draws ok have "1 \<le> planned_cost_draw d" by (simp add: valid_draws_def)
  moreover from draws have "- (15 / 100) \<le> cost_variance_draw d" by (simp add: valid_draws_def)
  ultimately have cost:
    "0 < py_round (of_int (planned_cost_draw d) * (1 + cost_variance_draw d)) 2"
    by (rule py_round_cost_pos)
  from draws have tt: "0 \<le> tasks_total_draw d" by (simp add: valid_draws_def)
  have share: "py_int (of_int (tasks_total_draw d) * (of_int (completion_draw d) / 100))
                 \<le> tasks_total_draw d"
    if "0 \<le> completion_draw d" "completion_draw d \<le> 100"
    using tt that by (rule py_int_share_le)
  consider "status_roll d < 40 / 100"
    | "\<not> status_roll d < 40 / 100" "status_roll d < 75 / 100"
    | "\<not> status_roll d < 75 / 100" "status_roll d < 85 / 100"
    | "\<not> status_roll d < 85 / 100" "status_roll d < 95 / 100"
    | "\<not> status_roll d < 95 / 100"
    by linarith
  then show ?thesis
  proof cases
    case 1
    then show ?thesis using ok dt dur cost tt
      by (simp add: generate_realistic_project_def Let_def)
  next
    case 2
    with draws have "50 \<le> completion_draw d" "completion_draw d \<le> 95"
      by (simp_all add: valid_draws_def)
    then show ?thesis using 2 ok dt dur cost share
      by (simp add: generate_realistic_project_def Let_def)
  next
    case 3
    with draws have "70 \<le> completion_draw d" "completion_draw d \<le> 90"
      by (simp_all add: valid_draws_def)
    then show ?thesis using 3 ok dt dur cost share
      by (simp add: generate_realistic_project_def Let_def)
  next
    case 4
    then show ?thesis using ok dt dur cost tt
      by (simp add: generate_realistic_project_def Let_def)
  next
    case 5
    with draws have "20 \<le> completion_draw d" "completion_draw d \<le> 60"
      by (simp_all add: valid_draws_def)
    then show ?thesis using 5 ok dt dur cost share
      by (simp add: generate_realistic_project_def Let_def)
  qed
qed

theorem generated_project_invariants_witness:
  "DEPT_CONFIG ''Marketing'' = Some marketing_config
   \<and> valid_draws marketing_config sample_draws
   \<and> (\<exists>p. generate_realistic_project ''Marketing'' 1001 ''Website Redesign''
              marketing_config sample_draws = Inr p
          \<and> tasks_completed p \<le> tasks_total p
          \<and> 0 \<le> planned_completion p \<and> planned_completion p \<le> 100
          \<and> 0 \<le> actual_completion p \<and> actual_completion p \<le> 100
          \<and> end_date p > start_date p
          \<and> actual_cost p > 0)"
proof -
  have c: "DEPT_CONFIG ''Marketing'' = Some marketing_config"
    by (simp add: marketing_config_def DEPT_CONFIG_def)
  have v: "valid_draws marketing_config sample_draws"
    by code_simp
  from c v generated_project_invariants [OF c v, of 1001 "''Website Redesign''"]
  show ?thesis by (intro conjI)
qed

text \<open>
  C10. Every record that \<open>generate_realistic_project\<close> returns has a planned completion
  of exactly 100, whatever the status; so, the draws being within their ranges, the
  \<open>On_Time\<close> flag of the transform step (actual completion at least the planned one)
  holds for it exactly when its actual completion is 100.
\<close>

theorem generated_planned_completion:
  assumes gen: "generate_realistic_project dept_name pid pname config d = Inr p"
  shows "planned_completion p = 100
         \<and> (valid_draws config d \<longrightarrow>
              (On_Time (transform_row p) \<longleftrightarrow> actual_completion p = 100))"
proof -
  from gen obtain start where
    dt: "datetime 2024 (month_draw d) (day_draw d) = Inr start"
    and nz: "config_managers config \<noteq> []"
    and dr: "\<not> fst (duration_range config) > snd (duration_range config)"
    and cr: "\<not> fst (cost_range config) > snd (cost_range config)"
    by (auto simp add: generate_realistic_project_def split: if_splits sum.splits)
  consider "status_roll d < 40 / 100"
    | "\<not> status_roll d < 40 / 100" "status_roll d < 75 / 100"
    | "\<not> status_roll d < 75 / 100" "status_roll d < 85 / 100"
    | "\<not> status_roll d < 85 / 100" "status_roll d < 95 / 100"
    | "\<not> status_roll d < 95 / 100"
    by linarith
  then show ?thesis
  proof cases
    case 1
    with gen dt nz dr cr show ?thesis
      by (auto simp add: generate_realistic_project_def Let_def transform_row_def)
  next
    case 2
    with gen dt nz dr cr show ?thesis
      by (auto simp add: generate_realistic_project_def Let_def transform_row_def valid_draws_def)
  next
    case 3
    with gen dt nz dr cr show ?thesis
      by (auto simp add: generate_realistic_project_def Let_def transform_row_def valid_draws_def)
  next
    case 4
    with gen dt nz dr cr show ?thesis
      by (auto simp add: generate_realistic_project_def Let_def transform_row_def)
  next
    case 5
    with gen dt nz dr cr show ?thesis
      by (auto simp add: generate_realistic_project_def Let_def transform_row_def valid_draws_def)
  qed
qed

theorem generated_planned_completion_witness:
  "generate_realistic_project ''Marketing'' 1001 ''Website Redesign'' marketing_config
       completed_draws = Inr completed_project
   \<and> valid_draws marketing_config completed_draws
   \<and> planned_completion completed_project = 100
   \<and> On_Time (transform_row completed_project)
   \<and> actual_completion completed_project = 100"
proof -
  have g: "generate_realistic_project ''Marketing'' 1001 ''Website Redesign'' marketing_config
             completed_draws = Inr completed_project"
    by code_simp
  have v: "valid_draws marketing_config completed_draws"
    by code_simp
  have a: "actual_completion completed_project = 100"
    by (simp add: completed_project_def)
  from generated_planned_completion [OF g] v a
  have "planned_completion completed_project = 100" and "On_Time (transform_row completed_project)"
    by simp_all
  with g v a show ?thesis by (intro conjI)
qed

section \<open>The result of the validator\<close>

lemma bindE_Inr [simp]: "bindE (Inr x) f = f x"
  by (simp add: bindE_def)

lemma bindE_Inl [simp]: "bindE (Inl e) f = Inl e"
  by (simp add: bindE_def)

lemma bindE_eq_Inr: "bindE m f = Inr y \<longleftrightarrow> (\<exists>x. m = Inr x \<and> f x = Inr y)"
  by (cases m) simp_all

lemma column_present [simp]: "c \<in> set (columns df) \<Longrightarrow> column c df = Inr ()"
  by (simp add: column_def)

lemma passed_failed [simp]: "validation_passed (failed s) = False"
  by (simp add: failed_def)

lemma passed_warned [simp]: "validation_passed (warned s) = validation_passed s"
  by (simp add: warned_def)

subsection \<open>No step sets the flag again\<close>

lemma check_schema_mono: "validation_passed (check_schema s df) \<Longrightarrow> validation_passed s"
  by (simp add: check_schema_def split: if_splits)

lemma check_missing_mono: "validation_passed (check_missing A s) \<Longrightarrow> validation_passed s"
  by (simp add: check_missing_def split: if_splits)

lemma check_unique_ids_mono:
  "check_unique_ids A s = Inr s' \<Longrightarrow> validation_passed s' \<Longrightarrow> validation_passed s"
  by (auto simp add: check_unique_ids_def bindE_eq_Inr split: if_splits)

lemma check_dates_mono:
  "check_dates A s = Inr s' \<Longrightarrow> validation_passed s' \<Longrightarrow> validation_passed s"
  by (auto simp add: check_dates_def bindE_eq_Inr Let_def split: if_splits)

lemma check_costs_mono:
  "check_costs A s = Inr s' \<Longrightarrow> validation_passed s' \<Longrightarrow> validation_passed s"
  by (auto simp add: check_costs_def bindE_eq_Inr Let_def split: if_splits)

lemma check_completion_mono:
  "check_completion A s = Inr s' \<Longrightarrow> validation_passed s' \<Longrightarrow> validation_passed s"
  by (auto simp add: check_completion_def bindE_eq_Inr split: if_splits)

lemma check_tasks_mono:
  "check_tasks A s = Inr s' \<Longrightarrow> validation_passed s' \<Longrightarrow> validation_passed s"
  by (auto simp add: check_tasks_def bindE_eq_Inr split: if_splits)

lemma check_status_mono:
  "check_status A s = Inr s' \<Longrightarrow> validation_passed s' \<Longrightarrow> validation_passed s"
  by (auto simp add: check_status_def bindE_eq_Inr split: if_splits)

lemma check_hours_mono:
  "check_hours A s = Inr s' \<Longrightarrow> validation_passed s' \<Longrightarrow> validation_passed s"
  by (auto simp add: check_hours_def bindE_eq_Inr split: if_splits)

lemma check_department_passed:
  "check_department s d = Inr s' \<Longrightarrow> validation_passed s' = validation_passed s"
  by (auto simp add: check_department_def bindE_eq_Inr split: if_splits)

lemma foldE_department_passed:
  "foldE check_department s ds = Inr s' \<Longrightarrow> validation_passed s' = validation_passed s"
proof (induction ds arbitrary: s)
  case Nil
  then show ?case by simp
next
  case (Cons d ds)
  from Cons.prems obtain s1 where a: "check_department s d = Inr s1"
    and b: "foldE check_department s1 ds = Inr s'"
    by (auto simp add: bindE_eq_Inr)
  from Cons.IH [OF b] check_department_passed [OF a] show ?case by simp
qed

subsection \<open>The steps on a frame that has the expected columns\<close>

lemma check_unique_ids_exact:
  assumes "set (columns A) = set expected_columns"
  shows "check_unique_ids A s = Inr (if duplicate_ids A \<noteq> [] then failed s else s)"
  using assms by (simp add: check_unique_ids_def expected_columns_def)

lemma check_dates_exact:
  assumes "set (columns A) = set expected_columns"
  shows "check_dates A s =
           Inr (if invalid_start A > 0 \<or> invalid_end A > 0 \<or> invalid_duration A \<noteq> []
                then failed s else s)"
  using assms by (simp add: check_dates_def expected_columns_def Let_def failed_def)

lemma check_costs_exact:
  assumes "set (columns A) = set expected_columns"
  shows "\<exists>s'. check_costs A s = Inr s'
           \<and> (validation_passed s' \<longleftrightarrow>
                validation_passed s \<and> negative_planned A = [] \<and> negative_actual A = [])"
  using assms by (simp add: check_costs_def expected_columns_def Let_def)

lemma check_completion_exact:
  assumes "set (columns A) = set expected_columns"
  shows "check_completion A s =
           Inr (if invalid_planned A \<noteq> [] \<or> invalid_actual A \<noteq> [] then failed s else s)"
  using assms by (simp add: check_completion_def expected_columns_def)

lemma check_tasks_exact:
  assumes "set (columns A) = set expected_columns"
  shows "check_tasks A s = Inr (if invalid_tasks A \<noteq> [] then failed s else s)"
  using assms by (simp add: check_tasks_def expected_columns_def)

lemma check_status_exact:
  assumes "set (columns A) = set expected_columns"
  shows "check_status A s = Inr (if invalid_status A \<noteq> [] then failed s else s)"
  using assms by (simp add: check_status_def expected_columns_def)

lemma check_hours_exact:
  assumes "set (columns A) = set expected_columns"
  shows "check_hours A s = Inr (if negative_hours A \<noteq> [] then failed s else s)"
  using assms by (simp add: check_hours_def expected_columns_def)

lemma check_department_exact:
  assumes "set (columns (fst d)) = set expected_columns"
  shows "\<exists>s'. check_department s d = Inr s' \<and> validation_passed s' = validation_passed s"
  using assms by (simp add: check_department_def expected_columns_def)

lemma foldE_department_exact:
  assumes "\<forall>d \<in> set ds. set (columns (fst d)) = set expected_columns"
  shows "\<exists>s'. foldE check_department s ds = Inr s' \<and> validation_passed s' = validation_passed s"
  using assms
proof (induction ds arbitrary: s)
  case Nil
  then show ?case by simp
next
  case (Cons d ds)
  from Cons.prems have "set (columns (fst d)) = set expected_columns" by simp
  from check_department_exact [OF this, of s] obtain s1
    where a: "check_department s d = Inr s1" and p: "validation_passed s1 = validation_passed s"
    by blast
  from Cons.prems have "\<forall>d \<in> set ds. set (columns (fst d)) = set expected_columns" by simp
  from Cons.IH [OF this, of s1] obtain s'
    where b: "foldE check_department s1 ds = Inr s'" and q: "validation_passed s' = validation_passed s1"
    by blast
  from a b p q show ?case by simp
qed

subsection \<open>The checks, row by row\<close>

lemma count_le_1_iff_distinct: "(\<forall>k \<in> set xs. count_list xs k \<le> 1) \<longleftrightarrow> distinct xs"
proof (induction xs)
  case Nil
  show ?case by simp
next
  case (Cons x xs)
  show ?case
  proof (cases "x \<in> set xs")
    case True
    then have "count_list xs x \<noteq> 0" by (simp add: count_list_0_iff)
    then have "\<not> count_list (x # xs) x \<le> 1" by simp
    moreover have "x \<in> set (x # xs)" by simp
    ultimately have "\<not> (\<forall>k \<in> set (x # xs). count_list (x # xs) k \<le> 1)" by blast
    with True show ?thesis by simp
  next
    case False
    then have same: "count_list (x # xs) k = count_list xs k" if "k \<in> set xs" for k
      using that by auto
    from False have one: "count_list (x # xs) x = 1" by simp
    have "(\<forall>k \<in> set (x # xs). count_list (x # xs) k \<le> 1)
            \<longleftrightarrow> (\<forall>k \<in> set xs. count_list (x # xs) k \<le> 1)"
      using one by (simp only: list.set ball_simps) simp
    also have "\<dots> \<longleftrightarrow> (\<forall>k \<in> set xs. count_list xs k \<le> 1)"
      using same by (metis (no_types, lifting))
    also have "\<dots> \<longleftrightarrow> distinct xs" by (rule Cons.IH)
    finally show ?thesis using False by simp
  qed
qed

lemma duplicate_ids_empty: "duplicate_ids A = [] \<longleftrightarrow> distinct (map Project_ID (rows A))"
proof -
  have "duplicate_ids A = [] \<longleftrightarrow>
          (\<forall>k \<in> set (map Project_ID (rows A)). \<not> 1 < count_list (map Project_ID (rows A)) k)"
    unfolding duplicate_ids_def Let_def filter_empty_conv ..
  also have "\<dots> \<longleftrightarrow>
          (\<forall>k \<in> set (map Project_ID (rows A)). count_list (map Project_ID (rows A)) k \<le> 1)"
    by (simp only: not_less)
  finally show ?thesis by (simp only: count_le_1_iff_distinct)
qed

lemma null_cells_names: "fst ` set (null_cells r) = set expected_columns"
  by (simp add: null_cells_def expected_columns_def)

lemma total_missing_zero:
  assumes "set (columns A) = set expected_columns"
  shows "total_missing A = 0 \<longleftrightarrow> (\<forall>r \<in> set (rows A). \<forall>cn \<in> set (null_cells r). \<not> snd cn)"
proof -
  have names: "fst cn \<in> set (columns A)" if "cn \<in> set (null_cells r)" for cn r
  proof -
    from that have "fst cn \<in> fst ` set (null_cells r)" by (rule imageI)
    then show ?thesis by (simp only: null_cells_names assms)
  qed
  have "total_missing A = 0 \<longleftrightarrow>
          (\<forall>r \<in> set (rows A). \<forall>cn \<in> set (null_cells r). \<not> (snd cn \<and> fst cn \<in> set (columns A)))"
    unfolding total_missing_def sum_list_eq_0_iff set_map ball_simps length_0_conv filter_empty_conv
    by (rule refl)
  also have "\<dots> \<longleftrightarrow> (\<forall>r \<in> set (rows A). \<forall>cn \<in> set (null_cells r). \<not> snd cn)"
    using names by blast
  finally show ?thesis .
qed

lemma ball_conj_split: "(\<forall>x \<in> S. P x \<and> Q x) \<longleftrightarrow> (\<forall>x \<in> S. P x) \<and> (\<forall>x \<in> S. Q x)"
  by blast

lemma checks_clear_rows:
  assumes "set (columns A) = set expected_columns"
  shows "checks_clear A \<longleftrightarrow> (\<forall>r \<in> set (rows A). row_clear r)"
  unfolding checks_clear_def total_missing_zero [OF assms] row_clear_def
    invalid_start_def invalid_end_def invalid_duration_def negative_planned_def
    negative_actual_def invalid_planned_def invalid_actual_def invalid_tasks_def
    invalid_status_def negative_hours_def length_0_conv filter_empty_conv
    ball_conj_split not_not
  by (rule refl)

lemma row_clear_valid: "row_clear r \<longleftrightarrow> record_valid r"
proof
  assume c: "row_clear r"
  then have nn: "\<forall>cn \<in> set (null_cells r). \<not> snd cn" by (simp add: row_clear_def)
  then obtain b e pc ac pcm acm st tt tc ph ah where cells:
    "Start_Date r = Some b" "End_Date r = Some e" "Planned_Cost r = Some pc"
    "Actual_Cost r = Some ac" "Planned_Completion r = Some pcm" "Actual_Completion r = Some acm"
    "Status r = Some st" "Tasks_Total r = Some tt" "Tasks_Completed r = Some tc"
    "Planned_Hours r = Some ph" "Actual_Hours r = Some ah"
    by (auto simp add: null_cells_def)
  from nn have rest: "Project_ID r \<noteq> None" "Department r \<noteq> None" "Project_Name r \<noteq> None"
    "Manager r \<noteq> None"
    by (simp_all add: null_cells_def)
  from c cells obtain bd ed where days: "b = Day bd" "e = Day ed"
    by (cases b; cases e) (simp_all add: row_clear_def to_datetime_def)
  from c cells days rest show "record_valid r"
    by (simp add: row_clear_def record_valid_def holds_def holds2_def to_datetime_def
        duration_days_def not_le not_less)
next
  assume v: "record_valid r"
  then obtain b e pc ac pcm acm st tt tc ph ah where cells:
    "Start_Date r = Some b" "End_Date r = Some e" "Planned_Cost r = Some pc"
    "Actual_Cost r = Some ac" "Planned_Completion r = Some pcm" "Actual_Completion r = Some acm"
    "Status r = Some st" "Tasks_Total r = Some tt" "Tasks_Completed r = Some tc"
    "Planned_Hours r = Some ph" "Actual_Hours r = Some ah"
    by (auto simp add: record_valid_def)
  from v have rest: "Project_ID r \<noteq> None" "Department r \<noteq> None" "Project_Name r \<noteq> None"
    "Manager r \<noteq> None"
    by (simp_all add: record_valid_def)
  from v cells obtain bd ed where days: "b = Day bd" "e = Day ed"
    by (cases b; cases e) (simp_all add: record_valid_def to_datetime_def holds2_def holds_def)
  from v cells days rest show "row_clear r"
    by (simp add: row_clear_def record_valid_def holds_def holds2_def to_datetime_def
        duration_days_def null_cells_def not_le not_less)
qed


subsection \<open>Frames that conform to the schema\<close>

lemma conforms_iff: "conforms df \<longleftrightarrow> missing_cols df = [] \<and> extra_cols df = []"
  unfolding conforms_def missing_cols_def extra_cols_def filter_empty_conv by blast

lemma check_schema_passed:
  "validation_passed (check_schema s df) \<longleftrightarrow> validation_passed s \<and> conforms df"
  by (simp add: check_schema_def conforms_iff)

lemma cell_conforming: "conforms df \<Longrightarrow> c \<in> set expected_columns \<Longrightarrow> cell c df v = v"
  by (simp add: cell_def conforms_def)

lemma align_conforming:
  assumes "conforms df"
  shows "align df r = r"
  by (simp add: align_def cell_conforming [OF assms] expected_columns_def)

lemma map_align_conforming: "conforms df \<Longrightarrow> map (align df) rs = rs"
  by (induction rs) (simp_all add: align_conforming)

lemma concat_frames_conforming:
  assumes "conforms marketing" "conforms operations" "conforms it"
  shows "rows (concat_frames [marketing, operations, it])
           = rows marketing @ rows operations @ rows it"
    and "set (columns (concat_frames [marketing, operations, it])) = set expected_columns"
proof -
  show "rows (concat_frames [marketing, operations, it])
          = rows marketing @ rows operations @ rows it"
    using assms by (simp add: concat_frames_def map_align_conforming)
  have "set (columns marketing) = set expected_columns"
    "set (columns operations) = set expected_columns"
    "set (columns it) = set expected_columns"
    using assms by (simp_all add: conforms_def)
  then show "set (columns (concat_frames [marketing, operations, it])) = set expected_columns"
    by (simp add: concat_frames_def set_drop_duplicates)
qed

subsection \<open>The flag at the end\<close>

lemma check_schema_conforming: "conforms df \<Longrightarrow> check_schema s df = s"
  by (simp add: check_schema_def conforms_iff)

lemma print_id_ranges_conforming:
  assumes "conforms marketing" "conforms operations" "conforms it"
  shows "print_id_ranges marketing operations it = Inr ()"
  using assms by (simp add: print_id_ranges_def conforms_def expected_columns_def)

lemma validate_frames_conforming:
  assumes c: "conforms marketing" "conforms operations" "conforms it"
  shows "\<exists>s. validate_frames marketing operations it = Inr s
           \<and> (validation_passed s \<longleftrightarrow>
                duplicate_ids (concat_frames [marketing, operations, it]) = []
                \<and> checks_clear (concat_frames [marketing, operations, it]))"
proof -
  let ?A = "concat_frames [marketing, operations, it]"
  let ?s0 = "\<lparr> validation_passed = True, warnings = 0 \<rparr>"
  have cols: "set (columns ?A) = set expected_columns"
    using c by (rule concat_frames_conforming(2))
  have s1: "foldl check_schema ?s0 [marketing, operations, it] = ?s0"
    using c by (simp add: check_schema_conforming)
  define s2 where "s2 = (if duplicate_ids ?A \<noteq> [] then failed ?s0 else ?s0)"
  define s3 where "s3 = (if invalid_start ?A > 0 \<or> invalid_end ?A > 0 \<or> invalid_duration ?A \<noteq> []
                         then failed (check_missing ?A s2) else check_missing ?A s2)"
  obtain s4 where s4: "check_costs ?A s3 = Inr s4"
    and p4: "validation_passed s4 \<longleftrightarrow>
               validation_passed s3 \<and> negative_planned ?A = [] \<and> negative_actual ?A = []"
    using check_costs_exact [OF cols, of s3] by blast
  define s5 where "s5 = (if invalid_planned ?A \<noteq> [] \<or> invalid_actual ?A \<noteq> [] then failed s4 else s4)"
  define s6 where "s6 = (if invalid_tasks ?A \<noteq> [] then failed s5 else s5)"
  define s7 where "s7 = (if invalid_status ?A \<noteq> [] then failed s6 else s6)"
  define s8 where "s8 = (if negative_hours ?A \<noteq> [] then failed s7 else s7)"
  have "\<forall>d \<in> set [(marketing, 10000, 50000), (operations, 15000, 75000), (it, 20000 :: rat, 100000 :: rat)].
          set (columns (fst d)) = set expected_columns"
    using c by (simp add: conforms_def)
  from foldE_department_exact [OF this, of s8] obtain s9
    where s9: "foldE check_department s8
                 [(marketing, 10000, 50000), (operations, 15000, 75000), (it, 20000, 100000)] = Inr s9"
      and p9: "validation_passed s9 = validation_passed s8"
    by blast
  have e2: "check_unique_ids ?A ?s0 = Inr s2"
    unfolding s2_def by (rule check_unique_ids_exact [OF cols])
  have e3: "check_dates ?A (check_missing ?A s2) = Inr s3"
    unfolding s3_def by (rule check_dates_exact [OF cols])
  have e5: "check_completion ?A s4 = Inr s5"
    unfolding s5_def by (rule check_completion_exact [OF cols])
  have e6: "check_tasks ?A s5 = Inr s6"
    unfolding s6_def by (rule check_tasks_exact [OF cols])
  have e7: "check_status ?A s6 = Inr s7"
    unfolding s7_def by (rule check_status_exact [OF cols])
  have e8: "check_hours ?A s7 = Inr s8"
    unfolding s8_def by (rule check_hours_exact [OF cols])
  have run: "validate_frames marketing operations it = Inr s9"
    unfolding validate_frames_def Let_def
    by (simp only: s1 e2 e3 s4 e5 e6 e7 e8 s9 print_id_ranges_conforming [OF c] bindE_Inr)
  have p2: "validation_passed s2 \<longleftrightarrow> duplicate_ids ?A = []"
    by (simp add: s2_def)
  have p3: "validation_passed s3 \<longleftrightarrow>
              validation_passed s2 \<and> total_missing ?A = 0
              \<and> invalid_start ?A = 0 \<and> invalid_end ?A = 0 \<and> invalid_duration ?A = []"
    by (simp add: s3_def check_missing_def)
  have p5: "validation_passed s5 \<longleftrightarrow>
              validation_passed s4 \<and> invalid_planned ?A = [] \<and> invalid_actual ?A = []"
    by (simp add: s5_def)
  have p6: "validation_passed s6 \<longleftrightarrow> validation_passed s5 \<and> invalid_tasks ?A = []"
    by (simp add: s6_def)
  have p7: "validation_passed s7 \<longleftrightarrow> validation_passed s6 \<and> invalid_status ?A = []"
    by (simp add: s7_def)
  have p8: "validation_passed s8 \<longleftrightarrow> validation_passed s7 \<and> negative_hours ?A = []"
    by (simp add: s8_def)
  have "validation_passed s9 \<longleftrightarrow> duplicate_ids ?A = [] \<and> checks_clear ?A"
    unfolding p9 p8 p7 p6 p5 p4 p3 p2 checks_clear_def by blast
  with run show ?thesis by blast
qed

lemma validate_frames_passed_conforms:
  assumes run: "validate_frames marketing operations it = Inr s"
    and passed: "validation_passed s"
  shows "conforms marketing \<and> conforms operations \<and> conforms it"
proof -
  let ?A = "concat_frames [marketing, operations, it]"
  let ?s1 = "foldl check_schema \<lparr> validation_passed = True, warnings = 0 \<rparr>
               [marketing, operations, it]"
  from run obtain s2 u s3 s4 s5 s6 s7 s8 where
    e2: "check_unique_ids ?A ?s1 = Inr s2"
    and "print_id_ranges marketing operations it = Inr u"
    and e3: "check_dates ?A (check_missing ?A s2) = Inr s3"
    and e4: "check_costs ?A s3 = Inr s4"
    and e5: "check_completion ?A s4 = Inr s5"
    and e6: "check_tasks ?A s5 = Inr s6"
    and e7: "check_status ?A s6 = Inr s7"
    and e8: "check_hours ?A s7 = Inr s8"
    and e9: "foldE check_department s8
               [(marketing, 10000, 50000), (operations, 15000, 75000), (it, 20000, 100000)] = Inr s"
    unfolding validate_frames_def Let_def bindE_eq_Inr by blast
  from foldE_department_passed [OF e9] passed have "validation_passed s8" by simp
  from check_hours_mono [OF e8 this] have "validation_passed s7" .
  from check_status_mono [OF e7 this] have "validation_passed s6" .
  from check_tasks_mono [OF e6 this] have "validation_passed s5" .
  from check_completion_mono [OF e5 this] have "validation_passed s4" .
  from check_costs_mono [OF e4 this] have "validation_passed s3" .
  from check_dates_mono [OF e3 this] have "validation_passed (check_missing ?A s2)" .
  from check_missing_mono [OF this] have "validation_passed s2" .
  from check_unique_ids_mono [OF e2 this] have "validation_passed ?s1" .
  then show ?thesis by (simp add: check_schema_passed)
qed

lemma validate_frames_result:
  "(\<exists>s. validate_frames marketing operations it = Inr s \<and> validation_passed s)
     \<longleftrightarrow> zero_hard_violations marketing operations it"
proof
  assume "\<exists>s. validate_frames marketing operations it = Inr s \<and> validation_passed s"
  then obtain s where run: "validate_frames marketing operations it = Inr s"
    and passed: "validation_passed s" by blast
  from validate_frames_passed_conforms [OF run passed]
  have c: "conforms marketing" "conforms operations" "conforms it" by simp_all
  let ?A = "concat_frames [marketing, operations, it]"
  from validate_frames_conforming [OF c] run passed
  have "duplicate_ids ?A = []" and "checks_clear ?A" by auto
  then have "distinct (map Project_ID (rows ?A))" and "\<forall>r \<in> set (rows ?A). record_valid r"
    by (simp_all add: duplicate_ids_empty checks_clear_rows [OF concat_frames_conforming(2) [OF c]]
        row_clear_valid)
  with c show "zero_hard_violations marketing operations it"
    by (simp add: zero_hard_violations_def concat_frames_conforming(1) [OF c])
next
  assume z: "zero_hard_violations marketing operations it"
  then have c: "conforms marketing" "conforms operations" "conforms it"
    by (simp_all add: zero_hard_violations_def)
  let ?A = "concat_frames [marketing, operations, it]"
  from z have "distinct (map Project_ID (rows ?A))" and "\<forall>r \<in> set (rows ?A). record_valid r"
    by (simp_all add: zero_hard_violations_def concat_frames_conforming(1) [OF c])
  then have "duplicate_ids ?A = []" and "checks_clear ?A"
    by (simp_all add: duplicate_ids_empty checks_clear_rows [OF concat_frames_conforming(2) [OF c]]
        row_clear_valid)
  with validate_frames_conforming [OF c]
  show "\<exists>s. validate_frames marketing operations it = Inr s \<and> validation_passed s" by blast
qed

text \<open>
  C7. With the three files loaded, \<open>validate_datasets\<close> returns \<open>True\<close> exactly when
  the record set has none of the hard violations; the warnings (a cost variance beyond
  50 percent, a planned cost outside the department's budget range) are no part of that
  condition.
\<close>

theorem validation_passes_iff_no_hard_violation:
  "validate_datasets (Some marketing) (Some operations) (Some it) = Inr True
     \<longleftrightarrow> zero_hard_violations marketing operations it"
proof -
  have "validate_datasets (Some marketing) (Some operations) (Some it) = Inr True
          \<longleftrightarrow> (\<exists>s. validate_frames marketing operations it = Inr s \<and> validation_passed s)"
    by (auto simp add: validate_datasets_def bindE_eq_Inr)
  then show ?thesis by (simp only: validate_frames_result)
qed

theorem validation_passes_iff_no_hard_violation_witness:
  "zero_hard_violations warning_frame operations_frame it_frame
   \<and> validate_datasets (Some warning_frame) (Some operations_frame) (Some it_frame) = Inr True
   \<and> extreme_variance (concat_frames [warning_frame, operations_frame, it_frame]) \<noteq> []
   \<and> out_of_range warning_frame (10000, 50000) \<noteq> []
   \<and> validate_frames warning_frame operations_frame it_frame
       = Inr \<lparr> validation_passed = True, warnings = 2 \<rparr>"
proof -
  have z: "zero_hard_violations warning_frame operations_frame it_frame"
    by code_simp
  from validation_passes_iff_no_hard_violation [of warning_frame operations_frame it_frame] z
  have v: "validate_datasets (Some warning_frame) (Some operations_frame) (Some it_frame) = Inr True"
    by (rule iffD2)
  have e: "extreme_variance (concat_frames [warning_frame, operations_frame, it_frame]) \<noteq> []"
    by code_simp
  have r: "out_of_range warning_frame (10000, 50000) \<noteq> []"
    by code_simp
  have w: "validate_frames warning_frame operations_frame it_frame
             = Inr \<lparr> validation_passed = True, warnings = 2 \<rparr>"
    by code_simp
  from z v e r w show ?thesis by (intro conjI)
qed

section \<open>The exit status of the validation script\<close>

text \<open>
  C3, on the code. With \<open>marketing_projects.csv\<close> absent, and with all files there
  but a record with more completed tasks than tasks, \<open>validate_datasets\<close> returns
  \<open>False\<close> and the script still exits with status 0; the entry point of
  \<open>etl_pipeline.py\<close> turns the same kind of result into status 1.
\<close>

theorem validation_failure_exits_zero:
  "validate_datasets None (Some operations_frame) (Some it_frame) = Inr False
   \<and> validate_data_main None (Some operations_frame) (Some it_frame) = 0
   \<and> validate_datasets (Some bad_tasks_frame) (Some operations_frame) (Some it_frame) = Inr False
   \<and> validate_data_main (Some bad_tasks_frame) (Some operations_frame) (Some it_frame) = 0
   \<and> validate_data_main (Some marketing_frame) (Some operations_frame) (Some it_frame) = 0
   \<and> etl_pipeline_main False = 1"
proof (intro conjI)
  show "validate_datasets None (Some operations_frame) (Some it_frame) = Inr False"
    by (simp add: validate_datasets_def)
  show "validate_data_main None (Some operations_frame) (Some it_frame) = 0"
    by (simp add: validate_data_main_def validate_datasets_def)
  show "validate_datasets (Some bad_tasks_frame) (Some operations_frame) (Some it_frame) = Inr False"
    by code_simp
  show "validate_data_main (Some bad_tasks_frame) (Some operations_frame) (Some it_frame) = 0"
    by code_simp
  show "validate_data_main (Some marketing_frame) (Some operations_frame) (Some it_frame) = 0"
    by code_simp
  show "etl_pipeline_main False = 1"
    by (simp add: etl_pipeline_main_def)
qed

end
